theory Spec2Isabelle
  imports Main "HOL-Library.Word"
begin

section \<open>Triple-S metadata model\<close>

text \<open>
  The structures of \<^verbatim>\<open>xmltosps.go\<close> that hold a parsed Triple-S document. Go's
  \<^verbatim>\<open>int\<close> is taken at its 64-bit width: arithmetic wraps, and \<^verbatim>\<open>%d\<close> prints the
  two's-complement reading. Go strings are byte sequences, as \<^typ>\<open>string\<close> is. The
  \<^verbatim>\<open>XMLName\<close> fields only steer the decoder and are never read by the generator, so they
  are left out. The field \<^verbatim>\<open>Name\<close> of \<^verbatim>\<open>Val\<close> is called \<open>Val_Name\<close>, since
  \<^verbatim>\<open>Variable\<close> has a field of the same name.
\<close>

type_synonym go_int = "64 word"

record Val =
  Value :: go_int
  Val_Name :: string

record Posit =
  Start :: go_int
  Finish :: go_int

record Variable =
  Type :: string
  Name :: string
  Label :: string
  Position :: Posit
  Vals :: "Val list"

record Variables =
  Variable :: "Variable list"

section \<open>Formatting\<close>

abbreviation TAB :: char where "TAB \<equiv> CHR 0x09"
abbreviation NL :: char where "NL \<equiv> CHR 0x0A"
abbreviation DQ :: char where "DQ \<equiv> CHR 0x22"
abbreviation SQ :: char where "SQ \<equiv> CHR 0x27"

text \<open>Decimal digits of a natural number, most significant first.\<close>

definition digit :: "nat \<Rightarrow> char" where
  "digit d = ''0123456789'' ! d"

fun nat_dec :: "nat \<Rightarrow> string" where
  "nat_dec n = (if n < 10 then [digit n] else nat_dec (n div 10) @ [digit (n mod 10)])"

declare nat_dec.simps [simp del]

text \<open>The verb \<^verbatim>\<open>%d\<close> of \<^verbatim>\<open>fmt.Sprintf\<close> on an \<^verbatim>\<open>int\<close>.\<close>

definition int_dec :: "int \<Rightarrow> string" where
  "int_dec k = (if k < 0 then CHR ''-'' # nat_dec (nat (- k)) else nat_dec (nat k))"

definition fmt_d :: "go_int \<Rightarrow> string" where
  "fmt_d w = int_dec (sint w)"

text \<open>\<^verbatim>\<open>func (v Variable) VarType() string\<close>\<close>

definition VarType :: "Variable \<Rightarrow> string" where
  "VarType v =
     (if Type v = ''character'' \<or> Type v = ''time'' then '' (A)''
      else if Type v = ''date'' then '' (A)''
      else '''')"

section \<open>The output file\<close>

text \<open>
  An \<^verbatim>\<open>error\<close> value is represented by its message. The output \<^verbatim>\<open>*os.File\<close> is
  the sequence of chunks written so far (one per call of \<^verbatim>\<open>WriteString\<close>; the file's
  bytes are their concatenation) together with the outcome of each write still to come:
  \<open>None\<close> for a write that succeeds, \<open>Some (n, e)\<close> for one that fails with \<open>e\<close> after
  \<open>n\<close> bytes went out. Once the schedule is used up every write succeeds.
\<close>

datatype error = Err string

fun Error :: "error \<Rightarrow> string" where
  "Error (Err msg) = msg"

record File =
  written :: "string list"
  faults :: "(nat \<times> error) option list"

definition contents :: "File \<Rightarrow> string" where
  "contents f = concat (written f)"

text \<open>
  \<^verbatim>\<open>f.WriteString(s)\<close>; every caller discards the byte count, so only the error is
  returned.
\<close>

definition WriteString :: "File \<Rightarrow> string \<Rightarrow> error option \<times> File" where
  "WriteString f s =
     (case faults f of
        [] \<Rightarrow> (None, f\<lparr>written := written f @ [s]\<rparr>)
      | None # rest \<Rightarrow> (None, f\<lparr>written := written f @ [s], faults := rest\<rparr>)
      | Some (n, e) # rest \<Rightarrow> (Some e, f\<lparr>written := written f @ [take n s], faults := rest\<rparr>))"

section \<open>The DATA LIST statement\<close>

text \<open>
  The inner loop of \<^verbatim>\<open>DataList\<close>, \<^verbatim>\<open>for i, mult := range v.Vals\<close>, from index \<open>i\<close> on.
\<close>

fun DataList_mult :: "Variable \<Rightarrow> nat \<Rightarrow> Val list \<Rightarrow> File \<Rightarrow> error option \<times> File" where
  "DataList_mult v i [] f = (None, f)"
| "DataList_mult v i (mult # rest) f =
     (case WriteString f
             (TAB # Name v @ ''#'' @ fmt_d (Value mult) @ TAB #
              fmt_d (Start (Position v) + of_nat i) @ ''-'' @
              fmt_d (Start (Position v) + of_nat i) @ [NL]) of
        (Some err, f') \<Rightarrow> (Some err, f')
      | (None, f') \<Rightarrow> DataList_mult v (Suc i) rest f')"

text \<open>The body of the outer loop, \<^verbatim>\<open>for _, v := range d.Variable\<close>.\<close>

definition DataList_var :: "Variable \<Rightarrow> File \<Rightarrow> error option \<times> File" where
  "DataList_var v f =
     (if Type v \<noteq> ''multiple'' then
        WriteString f
          (TAB # Name v @ TAB # fmt_d (Start (Position v)) @ ''-'' @
           fmt_d (Finish (Position v)) @ VarType v @ [NL])
      else DataList_mult v 0 (Vals v) f)"

fun DataList_vars :: "Variable list \<Rightarrow> File \<Rightarrow> error option \<times> File" where
  "DataList_vars [] f = (None, f)"
| "DataList_vars (v # vs) f =
     (case DataList_var v f of
        (Some err, f') \<Rightarrow> (Some err, f')
      | (None, f') \<Rightarrow> DataList_vars vs f')"

definition DataList :: "string \<Rightarrow> File \<Rightarrow> Variables \<Rightarrow> error option \<times> File" where
  "DataList o_name f d =
     (case WriteString f (''FILE HANDLE longdata'' @ NL # ''/NAME='' @ DQ # o_name @ DQ # ''.'' @ [NL]) of
        (Some err, f1) \<Rightarrow> (Some err, f1)
      | (None, f1) \<Rightarrow>
     (case WriteString f1 (''DATA LIST FILE=longdata'' @ NL # ''/'') of
        (Some err, f2) \<Rightarrow> (Some err, f2)
      | (None, f2) \<Rightarrow>
     (case DataList_vars (Variable d) f2 of
        (Some err, f3) \<Rightarrow> (Some err, f3)
      | (None, f3) \<Rightarrow>
     (case WriteString f3 (''.'' @ [NL, NL]) of
        (Some err, f4) \<Rightarrow> (Some err, f4)
      | (None, f4) \<Rightarrow> (None, f4)))))"

section \<open>The VARIABLE LABELS statement\<close>

text \<open>The inner loop of \<^verbatim>\<open>VariableLabels\<close>, \<^verbatim>\<open>for _, mult := range v.Vals\<close>.\<close>

fun VariableLabels_mult :: "Variable \<Rightarrow> Val list \<Rightarrow> File \<Rightarrow> error option \<times> File" where
  "VariableLabels_mult v [] f = (None, f)"
| "VariableLabels_mult v (mult # rest) f =
     (case WriteString f
             (TAB # Name v @ ''#'' @ fmt_d (Value mult) @ TAB # DQ # Label v @ [DQ, NL]) of
        (Some err, f') \<Rightarrow> (Some err, f')
      | (None, f') \<Rightarrow> VariableLabels_mult v rest f')"

definition VariableLabels_var :: "Variable \<Rightarrow> File \<Rightarrow> error option \<times> File" where
  "VariableLabels_var v f =
     (if Type v \<noteq> ''multiple'' then
        WriteString f (TAB # Name v @ TAB # DQ # Label v @ [DQ, NL])
      else VariableLabels_mult v (Vals v) f)"

fun VariableLabels_vars :: "Variable list \<Rightarrow> File \<Rightarrow> error option \<times> File" where
  "VariableLabels_vars [] f = (None, f)"
| "VariableLabels_vars (v # vs) f =
     (case VariableLabels_var v f of
        (Some err, f') \<Rightarrow> (Some err, f')
      | (None, f') \<Rightarrow> VariableLabels_vars vs f')"

definition VariableLabels :: "File \<Rightarrow> Variables \<Rightarrow> error option \<times> File" where
  "VariableLabels f d =
     (case WriteString f (''VARIABLE LABELS'' @ [NL]) of
        (Some err, f1) \<Rightarrow> (Some err, f1)
      | (None, f1) \<Rightarrow>
     (case VariableLabels_vars (Variable d) f1 of
        (Some err, f2) \<Rightarrow> (Some err, f2)
      | (None, f2) \<Rightarrow>
     (case WriteString f2 (''.'' @ NL # ''EXECUTE.'' @ [NL, NL, NL]) of
        (Some err, f3) \<Rightarrow> (Some err, f3)
      | (None, f3) \<Rightarrow> (None, f3))))"

section \<open>The VALUE LABELS statement\<close>

text \<open>The loop of the \<^verbatim>\<open>single\<close> branch, \<^verbatim>\<open>for _, vs := range v.Vals\<close>.\<close>

fun ValueLabels_single :: "Variable \<Rightarrow> Val list \<Rightarrow> File \<Rightarrow> error option \<times> File" where
  "ValueLabels_single v [] f = (None, f)"
| "ValueLabels_single v (vs # rest) f =
     (case WriteString f (TAB # TAB # fmt_d (Value vs) @ '' '' @ DQ # Name v @ [DQ, NL]) of
        (Some err, f') \<Rightarrow> (Some err, f')
      | (None, f') \<Rightarrow> ValueLabels_single v rest f')"

text \<open>The loop of the \<^verbatim>\<open>multiple\<close> branch, \<^verbatim>\<open>for _, mult := range v.Vals\<close>.\<close>

fun ValueLabels_mult :: "Variable \<Rightarrow> Val list \<Rightarrow> File \<Rightarrow> error option \<times> File" where
  "ValueLabels_mult v [] f = (None, f)"
| "ValueLabels_mult v (mult # rest) f =
     (case WriteString f (TAB # Name v @ ''#'' @ fmt_d (Value mult) @ [NL]) of
        (Some err, f1) \<Rightarrow> (Some err, f1)
      | (None, f1) \<Rightarrow>
     (case WriteString f1
             (TAB # TAB # ''0'' @ DQ # ''No'' @ DQ # NL # TAB # TAB # ''1 '' @ DQ #
              Val_Name mult @ DQ # NL # ''/'') of
        (Some err, f2) \<Rightarrow> (Some err, f2)
      | (None, f2) \<Rightarrow> ValueLabels_mult v rest f2))"

definition ValueLabels_var :: "Variable \<Rightarrow> File \<Rightarrow> error option \<times> File" where
  "ValueLabels_var v f =
     (if Type v = ''single'' then
        (case WriteString f (TAB # Name v @ [NL]) of
           (Some err, f1) \<Rightarrow> (Some err, f1)
         | (None, f1) \<Rightarrow>
        (case ValueLabels_single v (Vals v) f1 of
           (Some err, f2) \<Rightarrow> (Some err, f2)
         | (None, f2) \<Rightarrow>
        (case WriteString f2 ''/'' of
           (Some err, f3) \<Rightarrow> (Some err, f3)
         | (None, f3) \<Rightarrow> (None, f3))))
      else if Type v = ''multiple'' then ValueLabels_mult v (Vals v) f
      else if Type v = ''logical'' then
        (case WriteString f (TAB # Name v @ [NL]) of
           (Some err, f1) \<Rightarrow> (Some err, f1)
         | (None, f1) \<Rightarrow>
        (case WriteString f1
                (TAB # TAB # ''0'' @ DQ # ''False'' @ DQ # NL # TAB # TAB # ''1 '' @ DQ #
                 ''True'' @ DQ # NL # ''/'') of
           (Some err, f2) \<Rightarrow> (Some err, f2)
         | (None, f2) \<Rightarrow> (None, f2)))
      else (None, f))"

fun ValueLabels_vars :: "Variable list \<Rightarrow> File \<Rightarrow> error option \<times> File" where
  "ValueLabels_vars [] f = (None, f)"
| "ValueLabels_vars (v # vs) f =
     (case ValueLabels_var v f of
        (Some err, f') \<Rightarrow> (Some err, f')
      | (None, f') \<Rightarrow> ValueLabels_vars vs f')"

definition ValueLabels :: "File \<Rightarrow> Variables \<Rightarrow> error option \<times> File" where
  "ValueLabels f d =
     (case WriteString f (''VALUE LABELS'' @ [NL]) of
        (Some err, f1) \<Rightarrow> (Some err, f1)
      | (None, f1) \<Rightarrow>
     (case ValueLabels_vars (Variable d) f1 of
        (Some err, f2) \<Rightarrow> (Some err, f2)
      | (None, f2) \<Rightarrow>
     (case WriteString f2 (''EXECUTE.'' @ [NL, NL]) of
        (Some err, f3) \<Rightarrow> (Some err, f3)
      | (None, f3) \<Rightarrow> (None, f3))))"

section \<open>The SAVE directive and the program\<close>

text \<open>
  \<^verbatim>\<open>log.Fatalln\<close> and \<^verbatim>\<open>log.Fatalf\<close> print a message and end the process with
  \<^verbatim>\<open>os.Exit(1)\<close>: a call does not come back to its caller. A computation therefore
  either returns a value or is \<open>Fatal\<close> with the message logged.
\<close>

datatype 'a outcome = Returns 'a | Fatal string

definition SaveToSPSS :: "string \<Rightarrow> string \<Rightarrow> File \<Rightarrow> error option outcome \<times> File" where
  "SaveToSPSS p fn f =
     (case WriteString f
             (''SAVE OUTFILE='' @ SQ # p @ ''/'' @ fn @ ''.sav'' @ SQ # NL # ''/COMPRESSED.'') of
        (Some err, f') \<Rightarrow> (Fatal (Error err), f')
      | (None, f') \<Rightarrow> (Returns None, f'))"

text \<open>
  What \<^verbatim>\<open>main\<close> takes from outside the repository: the command line, the file system
  (\<^verbatim>\<open>os.Open\<close>, \<^verbatim>\<open>ioutil.ReadAll\<close>, \<^verbatim>\<open>os.Create\<close>), the decoder
  \<^verbatim>\<open>xml.Unmarshal\<close>, which fills the value it is given and returns an error or nil, and
  the helpers \<^verbatim>\<open>path.Base\<close>, \<^verbatim>\<open>path.Ext\<close>, \<^verbatim>\<open>path.Dir\<close> and \<^verbatim>\<open>strings.Trim\<close>.
\<close>

record 'h env =
  Args :: "string list"
  Open :: "string \<Rightarrow> error + 'h"
  ReadAll :: "'h \<Rightarrow> string \<times> error option"
  Unmarshal :: "string \<Rightarrow> Variables \<Rightarrow> Variables \<times> error option"
  Create :: "string \<Rightarrow> error + File"
  Base :: "string \<Rightarrow> string"
  Ext :: "string \<Rightarrow> string"
  Dir :: "string \<Rightarrow> string"
  Trim :: "string \<Rightarrow> string \<Rightarrow> string"

text \<open>
  \<^verbatim>\<open>func main()\<close>: the way the process ends and the output file, once created. The
  errors of \<^verbatim>\<open>ioutil.ReadAll\<close> and of \<^verbatim>\<open>xml.Unmarshal\<close> are dropped, as in the source.
\<close>

definition main :: "'h env \<Rightarrow> unit outcome \<times> File option" where
  "main e =
     (if length (Args e) < 3 then
        (Fatal ''Usage: XMLtoSPS <XML:filepath> <ASC:filepath>'', None)
      else
        let input = Args e ! 1 in
       (case Open e input of
          Inl err \<Rightarrow> (Fatal (Error err), None)
        | Inr xmlFile \<Rightarrow>
            let b = fst (ReadAll e xmlFile);
                data = fst (Unmarshal e b \<lparr>Variable = []\<rparr>);
                fn = Trim e (Base e input) (Ext e input)
            in
           (case Create e (Dir e input @ ''/'' @ fn @ ''.sps'') of
              Inl err \<Rightarrow>
                (Fatal (''Please use forward slash in file path. As an example C:/Users/...'' @
                        NL # Error err), None)
            | Inr file \<Rightarrow>
           (case DataList (Args e ! 2) file data of
              (Some err, f1) \<Rightarrow> (Fatal (Error err), Some f1)
            | (None, f1) \<Rightarrow>
           (case VariableLabels f1 data of
              (Some err, f2) \<Rightarrow> (Fatal (Error err), Some f2)
            | (None, f2) \<Rightarrow>
           (case ValueLabels f2 data of
              (Some err, f3) \<Rightarrow> (Fatal (Error err), Some f3)
            | (None, f3) \<Rightarrow>
           (case SaveToSPSS (Dir e input) fn f3 of
              (Fatal msg, f4) \<Rightarrow> (Fatal msg, Some f4)
            | (Returns (Some err), f4) \<Rightarrow> (Fatal (Error err), Some f4)
            | (Returns None, f4) \<Rightarrow> (Returns (), Some f4))))))))"

section \<open>The generators as sequences of writes\<close>

text \<open>
  Writing a list of chunks one after the other, giving up at the first error: the shape
  every generator below has.
\<close>

fun write_all :: "File \<Rightarrow> string list \<Rightarrow> error option \<times> File" where
  "write_all f [] = (None, f)"
| "write_all f (s # ss) =
     (case WriteString f s of
        (Some err, f') \<Rightarrow> (Some err, f')
      | (None, f') \<Rightarrow> write_all f' ss)"

text \<open>
  The generated text as the specification describes it, variable by variable: the name
  of each entry of a variable (the plain name, or \<^verbatim>\<open>name#code\<close> per coded value), the
  lines of the layout block, of the variable-label block and of the value-label block.
\<close>

definition entry_names :: "Variable \<Rightarrow> string list" where
  "entry_names v =
     (if Type v \<noteq> ''multiple'' then [Name v]
      else map (\<lambda>m. Name v @ ''#'' @ fmt_d (Value m)) (Vals v))"

definition layout_lines :: "Variable \<Rightarrow> string list" where
  "layout_lines v =
     (if Type v \<noteq> ''multiple'' then
        [TAB # Name v @ TAB # fmt_d (Start (Position v)) @ ''-'' @
         fmt_d (Finish (Position v)) @ VarType v @ [NL]]
      else
        map (\<lambda>i. TAB # Name v @ ''#'' @ fmt_d (Value (Vals v ! i)) @ TAB #
                  fmt_d (Start (Position v) + of_nat i) @ ''-'' @
                  fmt_d (Start (Position v) + of_nat i) @ [NL])
            [0..<length (Vals v)])"

definition label_lines :: "Variable \<Rightarrow> string list" where
  "label_lines v = map (\<lambda>n. TAB # n @ TAB # DQ # Label v @ [DQ, NL]) (entry_names v)"

definition mult_section :: "Variable \<Rightarrow> Val \<Rightarrow> string list" where
  "mult_section v m =
     [TAB # Name v @ ''#'' @ fmt_d (Value m) @ [NL],
      TAB # TAB # ''0'' @ DQ # ''No'' @ DQ # NL # TAB # TAB # ''1 '' @ DQ #
      Val_Name m @ DQ # NL # ''/'']"

definition value_label_lines :: "Variable \<Rightarrow> string list" where
  "value_label_lines v =
     (if Type v = ''single'' then
        [TAB # Name v @ [NL]] @
        map (\<lambda>c. TAB # TAB # fmt_d (Value c) @ '' '' @ DQ # Name v @ [DQ, NL]) (Vals v) @
        [''/'']
      else if Type v = ''multiple'' then concat (map (mult_section v) (Vals v))
      else if Type v = ''logical'' then
        [TAB # Name v @ [NL],
         TAB # TAB # ''0'' @ DQ # ''False'' @ DQ # NL # TAB # TAB # ''1 '' @ DQ #
         ''True'' @ DQ # NL # ''/'']
      else [])"

definition entry_spans :: "Variable \<Rightarrow> string list" where
  "entry_spans v =
     (if Type v \<noteq> ''multiple'' then
        [fmt_d (Start (Position v)) @ ''-'' @ fmt_d (Finish (Position v)) @ VarType v @ [NL]]
      else
        map (\<lambda>i. fmt_d (Start (Position v) + of_nat i) @ ''-'' @
                  fmt_d (Start (Position v) + of_nat i) @ [NL])
            [0..<length (Vals v)])"

section \<open>Refinement lemmas\<close>

lemma write_all_append:
  "write_all f (xs @ ys) =
     (case write_all f xs of
        (Some err, f') \<Rightarrow> (Some err, f')
      | (None, f') \<Rightarrow> write_all f' ys)"
  by (induction xs arbitrary: f) (auto split: prod.splits option.splits)

lemma write_all_single: "write_all f [s] = WriteString f s"
  by (auto split: prod.splits option.splits)

lemma WriteString_no_fault:
  "faults f = [] \<Longrightarrow> WriteString f s = (None, f\<lparr>written := written f @ [s]\<rparr>)"
  by (simp add: WriteString_def)

lemma write_all_no_fault:
  "faults f = [] \<Longrightarrow> write_all f ss = (None, f\<lparr>written := written f @ ss\<rparr>)"
  by (induction ss arbitrary: f) (simp_all add: WriteString_no_fault)

lemma DataList_mult_write_all:
  "DataList_mult v i ms f =
     write_all f
       (map (\<lambda>j. TAB # Name v @ ''#'' @ fmt_d (Value (ms ! j)) @ TAB #
                  fmt_d (Start (Position v) + of_nat (i + j)) @ ''-'' @
                  fmt_d (Start (Position v) + of_nat (i + j)) @ [NL])
            [0..<length ms])"
proof (induction ms arbitrary: i f)
  case Nil
  show ?case by simp
next
  case (Cons m ms)
  show ?case
    by (simp only: length_Cons map_upt_Suc DataList_mult.simps write_all.simps Cons.IH
          nth_Cons_0 nth_Cons_Suc add_0_right add_Suc_right add_Suc)
qed

lemma DataList_var_write_all: "DataList_var v f = write_all f (layout_lines v)"
  by (simp add: DataList_var_def layout_lines_def DataList_mult_write_all write_all_single
           del: write_all.simps)

lemma DataList_vars_write_all:
  "DataList_vars vs f = write_all f (concat (map layout_lines vs))"
  by (induction vs arbitrary: f)
     (auto simp: DataList_var_write_all write_all_append split: prod.splits option.splits)

lemma DataList_write_all:
  "DataList o_name f d =
     write_all f
       ([''FILE HANDLE longdata'' @ NL # ''/NAME='' @ DQ # o_name @ DQ # ''.'' @ [NL],
         ''DATA LIST FILE=longdata'' @ NL # ''/''] @
        concat (map layout_lines (Variable d)) @ [''.'' @ [NL, NL]])"
  by (auto simp: DataList_def DataList_vars_write_all write_all_append
           split: prod.splits option.splits)

lemma length_entry_names:
  "length (entry_names v) = (if Type v \<noteq> ''multiple'' then 1 else length (Vals v))"
  by (simp add: entry_names_def)

lemma length_entry_spans: "length (entry_spans v) = length (entry_names v)"
  by (simp add: entry_names_def entry_spans_def)

lemma length_layout_lines:
  "length (layout_lines v) = (if Type v \<noteq> ''multiple'' then 1 else length (Vals v))"
  by (simp add: layout_lines_def)

lemma layout_lines_names:
  "layout_lines v = map2 (\<lambda>n s. TAB # n @ TAB # s) (entry_names v) (entry_spans v)"
proof (cases "Type v = ''multiple''")
  case False
  then show ?thesis by (simp add: layout_lines_def entry_names_def entry_spans_def)
next
  case True
  show ?thesis
  proof (rule nth_equalityI)
    show "length (layout_lines v) =
          length (map2 (\<lambda>n s. TAB # n @ TAB # s) (entry_names v) (entry_spans v))"
      by (simp add: length_layout_lines length_entry_names length_entry_spans)
  next
    fix i assume "i < length (layout_lines v)"
    with True have i: "i < length (Vals v)" by (simp add: length_layout_lines)
    with True show "layout_lines v ! i =
          map2 (\<lambda>n s. TAB # n @ TAB # s) (entry_names v) (entry_spans v) ! i"
      by (simp add: layout_lines_def entry_names_def entry_spans_def)
  qed
qed

lemma count_layout_lines:
  "length (concat (map layout_lines vs)) =
     length (filter (\<lambda>v. Type v \<noteq> ''multiple'') vs) +
     sum_list (map (\<lambda>v. length (Vals v)) (filter (\<lambda>v. Type v = ''multiple'') vs))"
  by (induction vs) (simp_all add: length_layout_lines)

lemma VariableLabels_mult_write_all:
  "VariableLabels_mult v ms f =
     write_all f
       (map (\<lambda>m. TAB # Name v @ ''#'' @ fmt_d (Value m) @ TAB # DQ # Label v @ [DQ, NL]) ms)"
  by (induction ms arbitrary: f) (auto split: prod.splits option.splits)

lemma VariableLabels_var_write_all: "VariableLabels_var v f = write_all f (label_lines v)"
  by (simp add: VariableLabels_var_def label_lines_def entry_names_def
        VariableLabels_mult_write_all write_all_single comp_def del: write_all.simps)

lemma VariableLabels_vars_write_all:
  "VariableLabels_vars vs f = write_all f (concat (map label_lines vs))"
  by (induction vs arbitrary: f)
     (auto simp: VariableLabels_var_write_all write_all_append split: prod.splits option.splits)

lemma VariableLabels_write_all:
  "VariableLabels f d =
     write_all f
       ([''VARIABLE LABELS'' @ [NL]] @ concat (map label_lines (Variable d)) @
        [''.'' @ NL # ''EXECUTE.'' @ [NL, NL, NL]])"
  by (auto simp: VariableLabels_def VariableLabels_vars_write_all write_all_append
           split: prod.splits option.splits)

lemma ValueLabels_single_write_all:
  "ValueLabels_single v cs f =
     write_all f
       (map (\<lambda>c. TAB # TAB # fmt_d (Value c) @ '' '' @ DQ # Name v @ [DQ, NL]) cs)"
  by (induction cs arbitrary: f) (auto split: prod.splits option.splits)

lemma ValueLabels_mult_write_all:
  "ValueLabels_mult v ms f = write_all f (concat (map (mult_section v) ms))"
  by (induction ms arbitrary: f) (auto simp: mult_section_def split: prod.splits option.splits)

lemma ValueLabels_var_write_all: "ValueLabels_var v f = write_all f (value_label_lines v)"
  by (auto simp: ValueLabels_var_def value_label_lines_def ValueLabels_single_write_all
        ValueLabels_mult_write_all write_all_append split: prod.splits option.splits)

lemma ValueLabels_vars_write_all:
  "ValueLabels_vars vs f = write_all f (concat (map value_label_lines vs))"
  by (induction vs arbitrary: f)
     (auto simp: ValueLabels_var_write_all write_all_append split: prod.splits option.splits)

lemma ValueLabels_write_all:
  "ValueLabels f d =
     write_all f
       ([''VALUE LABELS'' @ [NL]] @ concat (map value_label_lines (Variable d)) @
        [''EXECUTE.'' @ [NL, NL]])"
  by (auto simp: ValueLabels_def ValueLabels_vars_write_all write_all_append
           split: prod.splits option.splits)

lemma write_all_error:
  "write_all f ss = (Some e, f') \<Longrightarrow>
     \<exists>k n. k < length ss \<and> k < length (faults f) \<and> faults f ! k = Some (n, e) \<and>
           (\<forall>j<k. faults f ! j = None) \<and>
           faults f' = drop (Suc k) (faults f) \<and>
           written f' = written f @ take k ss @ [take n (ss ! k)]"
proof (induction ss arbitrary: f)
  case Nil
  then show ?case by simp
next
  case (Cons s ss)
  show ?case
  proof (cases "faults f")
    case Nil
    with Cons.prems show ?thesis
      by (simp add: WriteString_def write_all_no_fault)
  next
    case (Cons x rest)
    note fl = this
    show ?thesis
    proof (cases x)
      case None
      let ?g = "f\<lparr>written := written f @ [s], faults := rest\<rparr>"
      from Cons.prems fl None have "write_all ?g ss = (Some e, f')"
        by (simp add: WriteString_def)
      from Cons.IH [OF this] obtain k n where k:
        "k < length ss" "k < length rest" "rest ! k = Some (n, e)"
        "\<forall>j<k. rest ! j = None" "faults f' = drop (Suc k) rest"
        "written f' = (written f @ [s]) @ take k ss @ [take n (ss ! k)]"
        by auto
      have "\<forall>j<Suc k. faults f ! j = None"
        using k(4) fl None by (auto simp: nth_Cons split: nat.splits)
      with k fl show ?thesis
        by (intro exI [of _ "Suc k"] exI [of _ n]) simp
    next
      case (Some ne)
      obtain n e' where ne: "ne = (n, e')" by (cases ne)
      with Cons.prems fl Some have "e' = e" "f' = f\<lparr>written := written f @ [take n s], faults := rest\<rparr>"
        by (simp_all add: WriteString_def)
      with fl Some ne show ?thesis
        by (intro exI [of _ 0] exI [of _ n]) simp
    qed
  qed
qed

lemma nat_dec_digit: "n < 10 \<Longrightarrow> nat_dec n = [digit n]"
  by (simp add: nat_dec.simps)

lemma fmt_d_small:
  "fmt_d 1 = ''1''" "fmt_d 2 = ''2''" "fmt_d 5 = ''5''" "fmt_d 6 = ''6''" "fmt_d 7 = ''7''"
  by (simp_all add: fmt_d_def int_dec_def nat_dec_digit digit_def)

lemma sint_add_of_nat:
  fixes S :: go_int
  assumes "sint S + int i < 2 ^ 63"
  shows "sint (S + of_nat i) = sint S + int i"
proof -
  have lo: "- (2 ^ 63) \<le> sint S"
    using sint_ge [of S] by simp
  have "S + of_nat i = word_of_int (sint S + int i)"
    by simp
  then have "sint (S + of_nat i) = signed_take_bit 63 (sint S + int i)"
    by (simp only: sint_sbintrunc') simp
  also have "\<dots> = sint S + int i"
    using assms lo by (intro signed_take_bit_int_eq_self) simp_all
  finally show ?thesis .
qed

section \<open>The layout block\<close>

text \<open>
  Claim C3. A variable of type \<^verbatim>\<open>multiple\<close> with start column \<open>S\<close> gets, in the layout
  block, one line per coded value and nothing else: the \<open>i\<close>-th line (from 0) is named
  \<^verbatim>\<open>name#code\<close> with the code of the \<open>i\<close>-th coded value and spans the columns
  \<open>S + i\<close> to \<open>S + i\<close>; the finish column is not used. The sum is Go's \<^verbatim>\<open>int\<close>
  addition, which is the integer sum as long as that stays below \<open>2^63\<close>.
\<close>

theorem DataList_multiple_columns:
  assumes "Type v = ''multiple''" and "faults f = []"
  shows "DataList o_name f \<lparr>Variable = pre @ v # post\<rparr> =
           (None, f\<lparr>written := written f @
              [''FILE HANDLE longdata'' @ NL # ''/NAME='' @ DQ # o_name @ DQ # ''.'' @ [NL],
               ''DATA LIST FILE=longdata'' @ NL # ''/''] @
              concat (map layout_lines pre) @
              map (\<lambda>i. TAB # Name v @ ''#'' @ fmt_d (Value (Vals v ! i)) @ TAB #
                        fmt_d (Start (Position v) + of_nat i) @ ''-'' @
                        fmt_d (Start (Position v) + of_nat i) @ [NL])
                  [0..<length (Vals v)] @
              concat (map layout_lines post) @ [''.'' @ [NL, NL]]\<rparr>) \<and>
         (\<forall>i<length (Vals v). sint (Start (Position v)) + int i < 2 ^ 63 \<longrightarrow>
            fmt_d (Start (Position v) + of_nat i) = int_dec (sint (Start (Position v)) + int i))"
proof -
  have "layout_lines v =
          map (\<lambda>i. TAB # Name v @ ''#'' @ fmt_d (Value (Vals v ! i)) @ TAB #
                    fmt_d (Start (Position v) + of_nat i) @ ''-'' @
                    fmt_d (Start (Position v) + of_nat i) @ [NL])
              [0..<length (Vals v)]"
    using assms(1) by (simp add: layout_lines_def)
  then show ?thesis
    using assms(2)
    by (simp add: DataList_write_all write_all_no_fault fmt_d_def sint_add_of_nat
             del: write_all.simps)
qed

theorem DataList_multiple_columns_witness:
  "DataList ''survey.asc'' \<lparr>written = [], faults = []\<rparr>
     \<lparr>Variable =
        [\<lparr>Type = ''character'', Name = ''Q1'', Label = ''Question 1'',
          Position = \<lparr>Start = 1, Finish = 5\<rparr>, Vals = []\<rparr>,
         \<lparr>Type = ''multiple'', Name = ''Q2'', Label = ''Multi'',
          Position = \<lparr>Start = 6, Finish = 6\<rparr>,
          Vals = [\<lparr>Value = 1, Val_Name = ''Red''\<rparr>, \<lparr>Value = 2, Val_Name = ''Blue''\<rparr>]\<rparr>]\<rparr> =
     (None, \<lparr>written =
        [''FILE HANDLE longdata'' @ NL # ''/NAME='' @ DQ # ''survey.asc'' @ DQ # ''.'' @ [NL],
         ''DATA LIST FILE=longdata'' @ NL # ''/'',
         TAB # ''Q1'' @ TAB # ''1-5 (A)'' @ [NL],
         TAB # ''Q2#1'' @ TAB # ''6-6'' @ [NL],
         TAB # ''Q2#2'' @ TAB # ''7-7'' @ [NL],
         ''.'' @ [NL, NL]], faults = []\<rparr>) \<and>
   fmt_d (6 + of_nat 1) = int_dec (sint (6 :: go_int) + int 1)"
  using DataList_multiple_columns
    [of "\<lparr>Type = ''multiple'', Name = ''Q2'', Label = ''Multi'',
          Position = \<lparr>Start = 6, Finish = 6\<rparr>,
          Vals = [\<lparr>Value = 1, Val_Name = ''Red''\<rparr>, \<lparr>Value = 2, Val_Name = ''Blue''\<rparr>]\<rparr>"
        "\<lparr>written = [], faults = []\<rparr>" "''survey.asc''"
        "[\<lparr>Type = ''character'', Name = ''Q1'', Label = ''Question 1'',
          Position = \<lparr>Start = 1, Finish = 5\<rparr>, Vals = []\<rparr>]" "[]"]
  by (simp add: layout_lines_def VarType_def fmt_d_small upt_conv_Cons int_dec_def
        nat_dec_digit digit_def)

section \<open>The layout block, document level\<close>

text \<open>
  Claim C4. On a file whose writes succeed, \<^verbatim>\<open>DataList\<close> writes the two header chunks,
  then the entries of the variables in document order, then the terminator. A variable
  that is not \<^verbatim>\<open>multiple\<close> has exactly one entry and a \<^verbatim>\<open>multiple\<close> variable one per
  coded value, so the number of entries is the number of non-multiple variables plus the
  sum of the coded-value counts of the multiple ones.
\<close>

theorem DataList_entry_count:
  assumes "faults f = []"
  shows "DataList o_name f d =
           (None, f\<lparr>written := written f @
              [''FILE HANDLE longdata'' @ NL # ''/NAME='' @ DQ # o_name @ DQ # ''.'' @ [NL],
               ''DATA LIST FILE=longdata'' @ NL # ''/''] @
              concat (map layout_lines (Variable d)) @ [''.'' @ [NL, NL]]\<rparr>) \<and>
         (\<forall>v\<in>set (Variable d).
            length (layout_lines v) = (if Type v \<noteq> ''multiple'' then 1 else length (Vals v))) \<and>
         length (concat (map layout_lines (Variable d))) =
           length (filter (\<lambda>v. Type v \<noteq> ''multiple'') (Variable d)) +
           sum_list (map (\<lambda>v. length (Vals v))
                         (filter (\<lambda>v. Type v = ''multiple'') (Variable d)))"
  using assms
  by (simp add: DataList_write_all write_all_no_fault length_layout_lines count_layout_lines
           del: write_all.simps)

theorem DataList_entry_count_witness:
  "DataList ''survey.asc'' \<lparr>written = [], faults = []\<rparr>
     \<lparr>Variable =
        [\<lparr>Type = ''multiple'', Name = ''Q2'', Label = ''Multi'',
          Position = \<lparr>Start = 6, Finish = 6\<rparr>,
          Vals = [\<lparr>Value = 1, Val_Name = ''Red''\<rparr>, \<lparr>Value = 2, Val_Name = ''Blue''\<rparr>]\<rparr>,
         \<lparr>Type = ''numeric'', Name = ''Q3'', Label = ''Age'',
          Position = \<lparr>Start = 1, Finish = 5\<rparr>, Vals = []\<rparr>]\<rparr> =
     (None, \<lparr>written =
        [''FILE HANDLE longdata'' @ NL # ''/NAME='' @ DQ # ''survey.asc'' @ DQ # ''.'' @ [NL],
         ''DATA LIST FILE=longdata'' @ NL # ''/'',
         TAB # ''Q2#1'' @ TAB # ''6-6'' @ [NL],
         TAB # ''Q2#2'' @ TAB # ''7-7'' @ [NL],
         TAB # ''Q3'' @ TAB # ''1-5'' @ [NL],
         ''.'' @ [NL, NL]], faults = []\<rparr>)"
  using DataList_entry_count
    [of "\<lparr>written = [], faults = []\<rparr>" "''survey.asc''"
        "\<lparr>Variable =
        [\<lparr>Type = ''multiple'', Name = ''Q2'', Label = ''Multi'',
          Position = \<lparr>Start = 6, Finish = 6\<rparr>,
          Vals = [\<lparr>Value = 1, Val_Name = ''Red''\<rparr>, \<lparr>Value = 2, Val_Name = ''Blue''\<rparr>]\<rparr>,
         \<lparr>Type = ''numeric'', Name = ''Q3'', Label = ''Age'',
          Position = \<lparr>Start = 1, Finish = 5\<rparr>, Vals = []\<rparr>]\<rparr>"]
  by (simp add: layout_lines_def VarType_def fmt_d_small upt_conv_Cons)

section \<open>The variable-label block\<close>

text \<open>
  Claim C8. The variable-label block has one label assignment per layout entry, under the
  same entry names as the layout block (the plain name of a variable that is not
  \<^verbatim>\<open>multiple\<close>, \<^verbatim>\<open>name#code\<close> for each coded value of one that is), and every entry of a
  variable carries that variable's \<^verbatim>\<open>Label\<close>.
\<close>

theorem VariableLabels_follow_layout:
  assumes "faults f = []" and "faults g = []"
  shows "VariableLabels f d =
           (None, f\<lparr>written := written f @ [''VARIABLE LABELS'' @ [NL]] @
              concat (map (\<lambda>v. map (\<lambda>n. TAB # n @ TAB # DQ # Label v @ [DQ, NL])
                                   (entry_names v)) (Variable d)) @
              [''.'' @ NL # ''EXECUTE.'' @ [NL, NL, NL]]\<rparr>) \<and>
         DataList o_name g d =
           (None, g\<lparr>written := written g @
              [''FILE HANDLE longdata'' @ NL # ''/NAME='' @ DQ # o_name @ DQ # ''.'' @ [NL],
               ''DATA LIST FILE=longdata'' @ NL # ''/''] @
              concat (map (\<lambda>v. map2 (\<lambda>n s. TAB # n @ TAB # s)
                                   (entry_names v) (entry_spans v)) (Variable d)) @
              [''.'' @ [NL, NL]]\<rparr>) \<and>
         (\<forall>v\<in>set (Variable d).
            length (entry_spans v) = length (entry_names v) \<and>
            entry_names v =
              (if Type v \<noteq> ''multiple'' then [Name v]
               else map (\<lambda>m. Name v @ ''#'' @ fmt_d (Value m)) (Vals v)))"
proof -
  have labels: "label_lines = (\<lambda>v. map (\<lambda>n. TAB # n @ TAB # DQ # Label v @ [DQ, NL]) (entry_names v))"
    by (rule ext) (simp add: label_lines_def)
  have layout: "layout_lines = (\<lambda>v. map2 (\<lambda>n s. TAB # n @ TAB # s) (entry_names v) (entry_spans v))"
    by (rule ext) (rule layout_lines_names)
  have "VariableLabels f d =
           (None, f\<lparr>written := written f @ [''VARIABLE LABELS'' @ [NL]] @
              concat (map label_lines (Variable d)) @
              [''.'' @ NL # ''EXECUTE.'' @ [NL, NL, NL]]\<rparr>)"
    using assms(1) by (simp add: VariableLabels_write_all write_all_no_fault del: write_all.simps)
  moreover have "DataList o_name g d =
           (None, g\<lparr>written := written g @
              [''FILE HANDLE longdata'' @ NL # ''/NAME='' @ DQ # o_name @ DQ # ''.'' @ [NL],
               ''DATA LIST FILE=longdata'' @ NL # ''/''] @
              concat (map layout_lines (Variable d)) @ [''.'' @ [NL, NL]]\<rparr>)"
    using assms(2) by (simp add: DataList_write_all write_all_no_fault del: write_all.simps)
  moreover have "\<forall>v\<in>set (Variable d).
            length (entry_spans v) = length (entry_names v) \<and>
            entry_names v =
              (if Type v \<noteq> ''multiple'' then [Name v]
               else map (\<lambda>m. Name v @ ''#'' @ fmt_d (Value m)) (Vals v))"
    by (simp add: length_entry_spans entry_names_def)
  ultimately show ?thesis
    unfolding labels layout by blast
qed

theorem VariableLabels_follow_layout_witness:
  "VariableLabels \<lparr>written = [], faults = []\<rparr>
     \<lparr>Variable =
        [\<lparr>Type = ''character'', Name = ''Q1'', Label = ''Question 1'',
          Position = \<lparr>Start = 1, Finish = 5\<rparr>, Vals = []\<rparr>,
         \<lparr>Type = ''multiple'', Name = ''Q2'', Label = ''Multi'',
          Position = \<lparr>Start = 6, Finish = 6\<rparr>,
          Vals = [\<lparr>Value = 1, Val_Name = ''Red''\<rparr>, \<lparr>Value = 2, Val_Name = ''Blue''\<rparr>]\<rparr>]\<rparr> =
     (None, \<lparr>written =
        [''VARIABLE LABELS'' @ [NL],
         TAB # ''Q1'' @ TAB # DQ # ''Question 1'' @ [DQ, NL],
         TAB # ''Q2#1'' @ TAB # DQ # ''Multi'' @ [DQ, NL],
         TAB # ''Q2#2'' @ TAB # DQ # ''Multi'' @ [DQ, NL],
         ''.'' @ NL # ''EXECUTE.'' @ [NL, NL, NL]], faults = []\<rparr>)"
  using VariableLabels_follow_layout
    [of "\<lparr>written = [], faults = []\<rparr>" "\<lparr>written = [], faults = []\<rparr>"
        "\<lparr>Variable =
        [\<lparr>Type = ''character'', Name = ''Q1'', Label = ''Question 1'',
          Position = \<lparr>Start = 1, Finish = 5\<rparr>, Vals = []\<rparr>,
         \<lparr>Type = ''multiple'', Name = ''Q2'', Label = ''Multi'',
          Position = \<lparr>Start = 6, Finish = 6\<rparr>,
          Vals = [\<lparr>Value = 1, Val_Name = ''Red''\<rparr>, \<lparr>Value = 2, Val_Name = ''Blue''\<rparr>]\<rparr>]\<rparr>"
        "''survey.asc''"]
  by (simp add: entry_names_def fmt_d_small)

section \<open>Multiple variables without coded values\<close>

text \<open>
  Claim C10. A \<^verbatim>\<open>multiple\<close> variable with no coded values writes nothing in any of the
  three blocks, whatever the state of the file: each block of a document is the same with
  and without that variable.
\<close>

theorem empty_multiple_vanishes:
  assumes "Type v = ''multiple''" and "Vals v = []"
  shows "DataList o_name f \<lparr>Variable = pre @ v # post\<rparr> =
           DataList o_name f \<lparr>Variable = pre @ post\<rparr> \<and>
         VariableLabels f \<lparr>Variable = pre @ v # post\<rparr> =
           VariableLabels f \<lparr>Variable = pre @ post\<rparr> \<and>
         ValueLabels f \<lparr>Variable = pre @ v # post\<rparr> =
           ValueLabels f \<lparr>Variable = pre @ post\<rparr> \<and>
         DataList_var v f = (None, f) \<and> VariableLabels_var v f = (None, f) \<and>
         ValueLabels_var v f = (None, f)"
proof -
  have "layout_lines v = []" "label_lines v = []" "value_label_lines v = []"
    using assms by (simp_all add: layout_lines_def label_lines_def entry_names_def
                      value_label_lines_def)
  then show ?thesis
    by (simp add: DataList_write_all VariableLabels_write_all ValueLabels_write_all
          DataList_var_write_all VariableLabels_var_write_all ValueLabels_var_write_all
          del: write_all.simps)
       simp
qed

theorem empty_multiple_vanishes_witness:
  "DataList ''survey.asc'' \<lparr>written = [], faults = [None, Some (3, Err ''disk full'')]\<rparr>
     \<lparr>Variable =
        [\<lparr>Type = ''character'', Name = ''Q1'', Label = ''Question 1'',
          Position = \<lparr>Start = 1, Finish = 5\<rparr>, Vals = []\<rparr>,
         \<lparr>Type = ''multiple'', Name = ''Q2'', Label = ''Multi'',
          Position = \<lparr>Start = 6, Finish = 9\<rparr>, Vals = []\<rparr>]\<rparr> =
   DataList ''survey.asc'' \<lparr>written = [], faults = [None, Some (3, Err ''disk full'')]\<rparr>
     \<lparr>Variable =
        [\<lparr>Type = ''character'', Name = ''Q1'', Label = ''Question 1'',
          Position = \<lparr>Start = 1, Finish = 5\<rparr>, Vals = []\<rparr>]\<rparr> \<and>
   ValueLabels_var
     \<lparr>Type = ''multiple'', Name = ''Q2'', Label = ''Multi'',
      Position = \<lparr>Start = 6, Finish = 9\<rparr>, Vals = []\<rparr>
     \<lparr>written = [], faults = [None, Some (3, Err ''disk full'')]\<rparr> =
   (None, \<lparr>written = [], faults = [None, Some (3, Err ''disk full'')]\<rparr>)"
  using empty_multiple_vanishes
    [of "\<lparr>Type = ''multiple'', Name = ''Q2'', Label = ''Multi'',
          Position = \<lparr>Start = 6, Finish = 9\<rparr>, Vals = []\<rparr>"
        "''survey.asc''" "\<lparr>written = [], faults = [None, Some (3, Err ''disk full'')]\<rparr>"
        "[\<lparr>Type = ''character'', Name = ''Q1'', Label = ''Question 1'',
          Position = \<lparr>Start = 1, Finish = 5\<rparr>, Vals = []\<rparr>]" "[]"]
  by simp

section \<open>The value-label block\<close>

text \<open>
  Claim C6. For a \<^verbatim>\<open>logical\<close> variable the value-label block has the variable's name and
  then the two fixed label lines, 0 with \<^verbatim>\<open>False\<close> and 1 with \<^verbatim>\<open>True\<close>; the coded values
  the variable may declare play no part.
\<close>

theorem ValueLabels_logical:
  assumes "Type v = ''logical''" and "faults f = []"
  shows "ValueLabels f \<lparr>Variable = pre @ v # post\<rparr> =
           (None, f\<lparr>written := written f @ [''VALUE LABELS'' @ [NL]] @
              concat (map value_label_lines pre) @
              [TAB # Name v @ [NL],
               TAB # TAB # ''0'' @ DQ # ''False'' @ DQ # NL # TAB # TAB # ''1 '' @ DQ #
               ''True'' @ DQ # NL # ''/''] @
              concat (map value_label_lines post) @ [''EXECUTE.'' @ [NL, NL]]\<rparr>)"
proof -
  have "value_label_lines v =
          [TAB # Name v @ [NL],
           TAB # TAB # ''0'' @ DQ # ''False'' @ DQ # NL # TAB # TAB # ''1 '' @ DQ #
           ''True'' @ DQ # NL # ''/'']"
    using assms(1) by (simp add: value_label_lines_def)
  then show ?thesis
    using assms(2) by (simp add: ValueLabels_write_all write_all_no_fault del: write_all.simps)
qed

theorem ValueLabels_logical_witness:
  "ValueLabels \<lparr>written = [], faults = []\<rparr>
     \<lparr>Variable =
        [\<lparr>Type = ''logical'', Name = ''Q4'', Label = ''Owns a car'',
          Position = \<lparr>Start = 8, Finish = 8\<rparr>,
          Vals = [\<lparr>Value = 5, Val_Name = ''Maybe''\<rparr>]\<rparr>]\<rparr> =
     (None, \<lparr>written =
        [''VALUE LABELS'' @ [NL],
         TAB # ''Q4'' @ [NL],
         TAB # TAB # ''0'' @ DQ # ''False'' @ DQ # NL # TAB # TAB # ''1 '' @ DQ #
         ''True'' @ DQ # NL # ''/'',
         ''EXECUTE.'' @ [NL, NL]], faults = []\<rparr>)"
  using ValueLabels_logical
    [of "\<lparr>Type = ''logical'', Name = ''Q4'', Label = ''Owns a car'',
          Position = \<lparr>Start = 8, Finish = 8\<rparr>,
          Vals = [\<lparr>Value = 5, Val_Name = ''Maybe''\<rparr>]\<rparr>"
        "\<lparr>written = [], faults = []\<rparr>" "[]" "[]"]
  by simp

text \<open>
  Claim C7. For a \<^verbatim>\<open>multiple\<close> variable the value-label block has, for each coded value in
  order, a section named \<^verbatim>\<open>name#code\<close> with exactly two label lines: 0 with \<^verbatim>\<open>No\<close> and
  1 with the text of that coded value.
\<close>

theorem ValueLabels_multiple:
  assumes "Type v = ''multiple''" and "faults f = []"
  shows "ValueLabels f \<lparr>Variable = pre @ v # post\<rparr> =
           (None, f\<lparr>written := written f @ [''VALUE LABELS'' @ [NL]] @
              concat (map value_label_lines pre) @
              concat (map (\<lambda>mult.
                 [TAB # Name v @ ''#'' @ fmt_d (Value mult) @ [NL],
                  TAB # TAB # ''0'' @ DQ # ''No'' @ DQ # NL # TAB # TAB # ''1 '' @ DQ #
                  Val_Name mult @ DQ # NL # ''/'']) (Vals v)) @
              concat (map value_label_lines post) @ [''EXECUTE.'' @ [NL, NL]]\<rparr>)"
proof -
  have "value_label_lines v =
          concat (map (\<lambda>mult.
                 [TAB # Name v @ ''#'' @ fmt_d (Value mult) @ [NL],
                  TAB # TAB # ''0'' @ DQ # ''No'' @ DQ # NL # TAB # TAB # ''1 '' @ DQ #
                  Val_Name mult @ DQ # NL # ''/'']) (Vals v))"
    using assms(1) by (simp add: value_label_lines_def mult_section_def [abs_def])
  then show ?thesis
    using assms(2) by (simp add: ValueLabels_write_all write_all_no_fault del: write_all.simps)
qed

theorem ValueLabels_multiple_witness:
  "ValueLabels \<lparr>written = [], faults = []\<rparr>
     \<lparr>Variable =
        [\<lparr>Type = ''character'', Name = ''Q1'', Label = ''Question 1'',
          Position = \<lparr>Start = 1, Finish = 5\<rparr>, Vals = []\<rparr>,
         \<lparr>Type = ''multiple'', Name = ''Q2'', Label = ''Multi'',
          Position = \<lparr>Start = 6, Finish = 6\<rparr>,
          Vals = [\<lparr>Value = 1, Val_Name = ''Red''\<rparr>, \<lparr>Value = 2, Val_Name = ''Blue''\<rparr>]\<rparr>]\<rparr> =
     (None, \<lparr>written =
        [''VALUE LABELS'' @ [NL],
         TAB # ''Q2#1'' @ [NL],
         TAB # TAB # ''0'' @ DQ # ''No'' @ DQ # NL # TAB # TAB # ''1 '' @ DQ #
         ''Red'' @ DQ # NL # ''/'',
         TAB # ''Q2#2'' @ [NL],
         TAB # TAB # ''0'' @ DQ # ''No'' @ DQ # NL # TAB # TAB # ''1 '' @ DQ #
         ''Blue'' @ DQ # NL # ''/'',
         ''EXECUTE.'' @ [NL, NL]], faults = []\<rparr>)"
  using ValueLabels_multiple
    [of "\<lparr>Type = ''multiple'', Name = ''Q2'', Label = ''Multi'',
          Position = \<lparr>Start = 6, Finish = 6\<rparr>,
          Vals = [\<lparr>Value = 1, Val_Name = ''Red''\<rparr>, \<lparr>Value = 2, Val_Name = ''Blue''\<rparr>]\<rparr>"
        "\<lparr>written = [], faults = []\<rparr>"
        "[\<lparr>Type = ''character'', Name = ''Q1'', Label = ''Question 1'',
          Position = \<lparr>Start = 1, Finish = 5\<rparr>, Vals = []\<rparr>]" "[]"]
  by (simp add: value_label_lines_def fmt_d_small)

text \<open>
  Claim C1 as stated fails: the label lines of a \<^verbatim>\<open>single\<close> variable quote the variable's
  \<^verbatim>\<open>Name\<close>, not its \<^verbatim>\<open>Label\<close>. For the variable \<^verbatim>\<open>Q5\<close> labelled \<^verbatim>\<open>Gender\<close> the lines
  read \<^verbatim>\<open>1 "Q5"\<close> and \<^verbatim>\<open>2 "Q5"\<close>.
\<close>

theorem ValueLabels_single_label_counterexample:
  "ValueLabels \<lparr>written = [], faults = []\<rparr>
     \<lparr>Variable =
        [\<lparr>Type = ''single'', Name = ''Q5'', Label = ''Gender'',
          Position = \<lparr>Start = 9, Finish = 9\<rparr>,
          Vals = [\<lparr>Value = 1, Val_Name = ''Male''\<rparr>, \<lparr>Value = 2, Val_Name = ''Female''\<rparr>]\<rparr>]\<rparr> =
     (None, \<lparr>written =
        [''VALUE LABELS'' @ [NL],
         TAB # ''Q5'' @ [NL],
         TAB # TAB # ''1 '' @ DQ # ''Q5'' @ [DQ, NL],
         TAB # TAB # ''2 '' @ DQ # ''Q5'' @ [DQ, NL],
         ''/'',
         ''EXECUTE.'' @ [NL, NL]], faults = []\<rparr>) \<and>
   ValueLabels \<lparr>written = [], faults = []\<rparr>
     \<lparr>Variable =
        [\<lparr>Type = ''single'', Name = ''Q5'', Label = ''Gender'',
          Position = \<lparr>Start = 9, Finish = 9\<rparr>,
          Vals = [\<lparr>Value = 1, Val_Name = ''Male''\<rparr>, \<lparr>Value = 2, Val_Name = ''Female''\<rparr>]\<rparr>]\<rparr> \<noteq>
     (None, \<lparr>written =
        [''VALUE LABELS'' @ [NL],
         TAB # ''Q5'' @ [NL],
         TAB # TAB # ''1 '' @ DQ # ''Gender'' @ [DQ, NL],
         TAB # TAB # ''2 '' @ DQ # ''Gender'' @ [DQ, NL],
         ''/'',
         ''EXECUTE.'' @ [NL, NL]], faults = []\<rparr>)"
  by (simp add: ValueLabels_write_all write_all_no_fault value_label_lines_def fmt_d_small
           del: write_all.simps)

text \<open>
  Claim C1, amended. For a \<^verbatim>\<open>single\<close> variable the value-label block has the variable's
  name, then one label line per coded value pairing the integer code of that coded value
  with the variable's own \<^verbatim>\<open>Name\<close> (neither its \<^verbatim>\<open>Label\<close> nor the text of the coded value),
  then the separator.
\<close>

theorem ValueLabels_single:
  assumes "Type v = ''single''" and "faults f = []"
  shows "ValueLabels f \<lparr>Variable = pre @ v # post\<rparr> =
           (None, f\<lparr>written := written f @ [''VALUE LABELS'' @ [NL]] @
              concat (map value_label_lines pre) @
              [TAB # Name v @ [NL]] @
              map (\<lambda>vs. TAB # TAB # fmt_d (Value vs) @ '' '' @ DQ # Name v @ [DQ, NL]) (Vals v) @
              [''/''] @
              concat (map value_label_lines post) @ [''EXECUTE.'' @ [NL, NL]]\<rparr>)"
proof -
  have "value_label_lines v =
          [TAB # Name v @ [NL]] @
          map (\<lambda>vs. TAB # TAB # fmt_d (Value vs) @ '' '' @ DQ # Name v @ [DQ, NL]) (Vals v) @
          [''/'']"
    using assms(1) by (simp add: value_label_lines_def)
  then show ?thesis
    using assms(2) by (simp add: ValueLabels_write_all write_all_no_fault del: write_all.simps)
qed

theorem ValueLabels_single_witness:
  "ValueLabels \<lparr>written = [], faults = []\<rparr>
     \<lparr>Variable =
        [\<lparr>Type = ''single'', Name = ''Q5'', Label = ''Gender'',
          Position = \<lparr>Start = 9, Finish = 9\<rparr>,
          Vals = [\<lparr>Value = 1, Val_Name = ''Male''\<rparr>, \<lparr>Value = 2, Val_Name = ''Female''\<rparr>]\<rparr>,
         \<lparr>Type = ''numeric'', Name = ''Q3'', Label = ''Age'',
          Position = \<lparr>Start = 1, Finish = 5\<rparr>, Vals = []\<rparr>]\<rparr> =
     (None, \<lparr>written =
        [''VALUE LABELS'' @ [NL],
         TAB # ''Q5'' @ [NL],
         TAB # TAB # ''1 '' @ DQ # ''Q5'' @ [DQ, NL],
         TAB # TAB # ''2 '' @ DQ # ''Q5'' @ [DQ, NL],
         ''/'',
         ''EXECUTE.'' @ [NL, NL]], faults = []\<rparr>)"
  using ValueLabels_single
    [of "\<lparr>Type = ''single'', Name = ''Q5'', Label = ''Gender'',
          Position = \<lparr>Start = 9, Finish = 9\<rparr>,
          Vals = [\<lparr>Value = 1, Val_Name = ''Male''\<rparr>, \<lparr>Value = 2, Val_Name = ''Female''\<rparr>]\<rparr>"
        "\<lparr>written = [], faults = []\<rparr>" "[]"
        "[\<lparr>Type = ''numeric'', Name = ''Q3'', Label = ''Age'',
          Position = \<lparr>Start = 1, Finish = 5\<rparr>, Vals = []\<rparr>]"]
  by (simp add: value_label_lines_def fmt_d_small)

text \<open>
  Claim C5 as stated fails for a \<^verbatim>\<open>multiple\<close> variable that has no coded values: the
  value-label block of a document holding only such a variable is the header and the
  closing directive, with no section in between.
\<close>

theorem ValueLabels_no_section_counterexample:
  "ValueLabels \<lparr>written = [], faults = []\<rparr>
     \<lparr>Variable =
        [\<lparr>Type = ''multiple'', Name = ''Q2'', Label = ''Multi'',
          Position = \<lparr>Start = 6, Finish = 9\<rparr>, Vals = []\<rparr>]\<rparr> =
     (None, \<lparr>written = [''VALUE LABELS'' @ [NL], ''EXECUTE.'' @ [NL, NL]], faults = []\<rparr>)"
  by (simp add: ValueLabels_write_all write_all_no_fault value_label_lines_def
           del: write_all.simps)

text \<open>
  Claim C5, amended. The value-label block is the header, the sections of the variables in
  document order and the closing directive. A \<^verbatim>\<open>single\<close> or \<^verbatim>\<open>logical\<close> variable has a
  section that opens with its name, a \<^verbatim>\<open>multiple\<close> variable has one section per coded value
  (so none when it has no coded values), and a variable of any other type has no output.
\<close>

theorem ValueLabels_sections:
  assumes "faults f = []"
  shows "ValueLabels f d =
           (None, f\<lparr>written := written f @ [''VALUE LABELS'' @ [NL]] @
              concat (map value_label_lines (Variable d)) @ [''EXECUTE.'' @ [NL, NL]]\<rparr>) \<and>
         (\<forall>v\<in>set (Variable d).
            (Type v = ''single'' \<or> Type v = ''logical'' \<longrightarrow>
               (\<exists>rest. value_label_lines v = (TAB # Name v @ [NL]) # rest)) \<and>
            (Type v = ''multiple'' \<longrightarrow>
               value_label_lines v =
                 concat (map (\<lambda>mult.
                   [TAB # Name v @ ''#'' @ fmt_d (Value mult) @ [NL],
                    TAB # TAB # ''0'' @ DQ # ''No'' @ DQ # NL # TAB # TAB # ''1 '' @ DQ #
                    Val_Name mult @ DQ # NL # ''/'']) (Vals v))) \<and>
            (Type v \<noteq> ''single'' \<and> Type v \<noteq> ''multiple'' \<and> Type v \<noteq> ''logical'' \<longrightarrow>
               value_label_lines v = []))"
proof -
  have "ValueLabels f d =
           (None, f\<lparr>written := written f @ [''VALUE LABELS'' @ [NL]] @
              concat (map value_label_lines (Variable d)) @ [''EXECUTE.'' @ [NL, NL]]\<rparr>)"
    using assms by (simp add: ValueLabels_write_all write_all_no_fault del: write_all.simps)
  moreover have "Type v = ''single'' \<or> Type v = ''logical'' \<longrightarrow>
               (\<exists>rest. value_label_lines v = (TAB # Name v @ [NL]) # rest)" for v
    by (auto simp: value_label_lines_def)
  moreover have "Type v = ''multiple'' \<longrightarrow>
               value_label_lines v =
                 concat (map (\<lambda>mult.
                   [TAB # Name v @ ''#'' @ fmt_d (Value mult) @ [NL],
                    TAB # TAB # ''0'' @ DQ # ''No'' @ DQ # NL # TAB # TAB # ''1 '' @ DQ #
                    Val_Name mult @ DQ # NL # ''/'']) (Vals v))" for v
    by (simp add: value_label_lines_def mult_section_def [abs_def])
  moreover have "Type v \<noteq> ''single'' \<and> Type v \<noteq> ''multiple'' \<and> Type v \<noteq> ''logical'' \<longrightarrow>
               value_label_lines v = []" for v
    by (simp add: value_label_lines_def)
  ultimately show ?thesis by blast
qed

theorem ValueLabels_sections_witness:
  "ValueLabels \<lparr>written = [], faults = []\<rparr>
     \<lparr>Variable =
        [\<lparr>Type = ''character'', Name = ''Q1'', Label = ''Question 1'',
          Position = \<lparr>Start = 1, Finish = 5\<rparr>, Vals = []\<rparr>,
         \<lparr>Type = ''single'', Name = ''Q5'', Label = ''Gender'',
          Position = \<lparr>Start = 9, Finish = 9\<rparr>,
          Vals = [\<lparr>Value = 1, Val_Name = ''Male''\<rparr>]\<rparr>,
         \<lparr>Type = ''multiple'', Name = ''Q2'', Label = ''Multi'',
          Position = \<lparr>Start = 6, Finish = 6\<rparr>,
          Vals = [\<lparr>Value = 2, Val_Name = ''Blue''\<rparr>]\<rparr>,
         \<lparr>Type = ''logical'', Name = ''Q4'', Label = ''Owns a car'',
          Position = \<lparr>Start = 8, Finish = 8\<rparr>, Vals = []\<rparr>,
         \<lparr>Type = ''quantity'', Name = ''Q6'', Label = ''Income'',
          Position = \<lparr>Start = 10, Finish = 15\<rparr>, Vals = []\<rparr>]\<rparr> =
     (None, \<lparr>written =
        [''VALUE LABELS'' @ [NL],
         TAB # ''Q5'' @ [NL],
         TAB # TAB # ''1 '' @ DQ # ''Q5'' @ [DQ, NL],
         ''/'',
         TAB # ''Q2#2'' @ [NL],
         TAB # TAB # ''0'' @ DQ # ''No'' @ DQ # NL # TAB # TAB # ''1 '' @ DQ #
         ''Blue'' @ DQ # NL # ''/'',
         TAB # ''Q4'' @ [NL],
         TAB # TAB # ''0'' @ DQ # ''False'' @ DQ # NL # TAB # TAB # ''1 '' @ DQ #
         ''True'' @ DQ # NL # ''/'',
         ''EXECUTE.'' @ [NL, NL]], faults = []\<rparr>)"
  using ValueLabels_sections
    [of "\<lparr>written = [], faults = []\<rparr>"
     "\<lparr>Variable =
        [\<lparr>Type = ''character'', Name = ''Q1'', Label = ''Question 1'',
          Position = \<lparr>Start = 1, Finish = 5\<rparr>, Vals = []\<rparr>,
         \<lparr>Type = ''single'', Name = ''Q5'', Label = ''Gender'',
          Position = \<lparr>Start = 9, Finish = 9\<rparr>,
          Vals = [\<lparr>Value = 1, Val_Name = ''Male''\<rparr>]\<rparr>,
         \<lparr>Type = ''multiple'', Name = ''Q2'', Label = ''Multi'',
          Position = \<lparr>Start = 6, Finish = 6\<rparr>,
          Vals = [\<lparr>Value = 2, Val_Name = ''Blue''\<rparr>]\<rparr>,
         \<lparr>Type = ''logical'', Name = ''Q4'', Label = ''Owns a car'',
          Position = \<lparr>Start = 8, Finish = 8\<rparr>, Vals = []\<rparr>,
         \<lparr>Type = ''quantity'', Name = ''Q6'', Label = ''Income'',
          Position = \<lparr>Start = 10, Finish = 15\<rparr>, Vals = []\<rparr>]\<rparr>"]
  by (simp add: value_label_lines_def mult_section_def fmt_d_small)

section \<open>The program\<close>

lemma main_Unmarshal_error_dropped:
  "main (e\<lparr>Unmarshal := \<lambda>b d. (fst (Unmarshal e b d), x)\<rparr>) = main e"
  by (simp add: main_def Let_def cong: sum.case_cong prod.case_cong option.case_cong)

text \<open>
  Claim C2 does not hold of the code: \<^verbatim>\<open>main\<close> drops the error of \<^verbatim>\<open>xml.Unmarshal\<close>. On an
  input that does not parse (the decoder reports a syntax error and leaves the document
  empty) the run is not aborted: the output file is created, all three blocks and the
  save directive are written, and the process ends normally with nothing reported.
\<close>

theorem main_ignores_parse_failure:
  "main \<lparr>Args = [''xmltosps'', ''survey.xml'', ''survey.asc''],
         Open = (\<lambda>name. Inr ()),
         ReadAll = (\<lambda>h. (''<sss'', None)),
         Unmarshal = (\<lambda>b d. (d, Some (Err ''XML syntax error on line 1: unexpected EOF''))),
         Create = (\<lambda>name. Inr \<lparr>written = [], faults = []\<rparr>),
         Base = (\<lambda>p. ''survey.xml''), Ext = (\<lambda>p. ''.xml''), Dir = (\<lambda>p. ''.''),
         Trim = (\<lambda>s cutset. ''survey'')\<rparr> =
     (Returns (),
      Some \<lparr>written =
        [''FILE HANDLE longdata'' @ NL # ''/NAME='' @ DQ # ''survey.asc'' @ DQ # ''.'' @ [NL],
         ''DATA LIST FILE=longdata'' @ NL # ''/'',
         ''.'' @ [NL, NL],
         ''VARIABLE LABELS'' @ [NL],
         ''.'' @ NL # ''EXECUTE.'' @ [NL, NL, NL],
         ''VALUE LABELS'' @ [NL],
         ''EXECUTE.'' @ [NL, NL],
         ''SAVE OUTFILE='' @ SQ # ''./survey.sav'' @ SQ # NL # ''/COMPRESSED.''],
        faults = []\<rparr>)"
  by (simp add: main_def DataList_write_all VariableLabels_write_all ValueLabels_write_all
        write_all_no_fault SaveToSPSS_def WriteString_def del: write_all.simps)

section \<open>Write failures\<close>

lemma DataList_error_propagates:
  assumes "DataList o_name f d = (Some e, f')"
  shows "\<exists>k n. k < length (faults f) \<and> faults f ! k = Some (n, e) \<and>
               (\<forall>j<k. faults f ! j = None) \<and> faults f' = drop (Suc k) (faults f)"
  using write_all_error [OF assms [unfolded DataList_write_all]] by blast

lemma VariableLabels_error_propagates:
  assumes "VariableLabels f d = (Some e, f')"
  shows "\<exists>k n. k < length (faults f) \<and> faults f ! k = Some (n, e) \<and>
               (\<forall>j<k. faults f ! j = None) \<and> faults f' = drop (Suc k) (faults f)"
  using write_all_error [OF assms [unfolded VariableLabels_write_all]] by blast

lemma ValueLabels_error_propagates:
  assumes "ValueLabels f d = (Some e, f')"
  shows "\<exists>k n. k < length (faults f) \<and> faults f ! k = Some (n, e) \<and>
               (\<forall>j<k. faults f ! j = None) \<and> faults f' = drop (Suc k) (faults f)"
  using write_all_error [OF assms [unfolded ValueLabels_write_all]] by blast

lemma write_all_fault:
  "k < length ss \<Longrightarrow> k < length fs \<Longrightarrow> fs ! k = Some (n, e) \<Longrightarrow> \<forall>j<k. fs ! j = None \<Longrightarrow>
   faults f = fs \<Longrightarrow>
   write_all f ss =
     (Some e, f\<lparr>written := written f @ take k ss @ [take n (ss ! k)], faults := drop (Suc k) fs\<rparr>)"
proof (induction ss arbitrary: f fs k)
  case Nil
  then show ?case by simp
next
  case (Cons s ss)
  show ?case
  proof (cases k)
    case 0
    with Cons.prems obtain rest where "fs = Some (n, e) # rest"
      by (cases fs) auto
    with 0 Cons.prems show ?thesis by (simp add: WriteString_def)
  next
    case (Suc k')
    with Cons.prems obtain rest where fs: "fs = None # rest"
      by (cases fs) force+
    let ?g = "f\<lparr>written := written f @ [s], faults := rest\<rparr>"
    have "write_all ?g ss =
            (Some e, ?g\<lparr>written := written ?g @ take k' ss @ [take n (ss ! k')],
                         faults := drop (Suc k') rest\<rparr>)"
      using Cons.prems Suc fs by (intro Cons.IH) auto
    with Cons.prems Suc fs show ?thesis by (simp add: WriteString_def)
  qed
qed

lemma SaveToSPSS_never_returns_error: "fst (SaveToSPSS p fn f) \<noteq> Returns (Some e)"
  by (simp add: SaveToSPSS_def split: prod.splits option.splits)

text \<open>
  Claim C9 does not hold of the save directive: when its write fails, \<^verbatim>\<open>SaveToSPSS\<close> ends
  the process itself with \<^verbatim>\<open>log.Fatalln\<close> and returns no error to its caller, whereas the
  three block generators return the error of the failing write.
\<close>

theorem SaveToSPSS_write_failure:
  "SaveToSPSS ''.'' ''survey''
     \<lparr>written = [], faults = [Some (0, Err ''write ./survey.sps: no space left on device'')]\<rparr> =
   (Fatal ''write ./survey.sps: no space left on device'', \<lparr>written = [[]], faults = []\<rparr>)"
  by (simp add: SaveToSPSS_def WriteString_def)

end
